theory Spec2Isabelle
  imports Complex_Main "HOL-Library.Word"
begin

unbundle bit_operations_syntax

section \<open>Python values and exceptions\<close>

text \<open>
  The controller is Python 2 code. Its angles and time stamps are Python numbers: ints and
  floats, the floats being IEEE 754 doubles. A number is embedded as the rational it
  denotes, and every arithmetic operation of the source on such numbers rounds its exact
  result to the nearest double, as the hardware does. Pulse widths are Python ints.

  Every \<^verbatim>\<open>raise\<close> of the source, and every operation of Python that raises on the
  inputs in question (attribute access on a value without that attribute, a dictionary
  lookup with a missing key, division by zero), is a value of the type \<open>error\<close>.
  The formatted text of a message is kept as a constructor holding the formatted values.
\<close>

datatype message =
    AngleOutsideLimits rat string rat rat
  | MaxLessThanMin rat rat string
  | MaxGreaterThan180 string
  | YouDoNotHaveControl
  | AskOrWait string string rat
  | NotYoursToRelease

datatype error =
    ValueError message
  | AttributeError
  | ZeroDivisionError
  | KeyError "8 word"
  | IOError string string
  | HTTPError nat message

subsection \<open>Doubles\<close>

text \<open>
  \<open>pow2 k\<close> is two to the power \<open>k\<close>. For a positive \<open>x\<close> within the range of the
  doubles, \<open>binade 1100 x\<close> is the exponent \<open>e\<close> with \<open>pow2 e \<le> x < pow2 (e + 1)\<close>,
  found by halving or doubling \<open>x\<close> until it lies between 1 and 2.
\<close>

definition pow2 :: "int \<Rightarrow> rat" where
  "pow2 k = (if 0 \<le> k then 2 ^ nat k else 1 / 2 ^ nat (- k))"

fun binade :: "nat \<Rightarrow> rat \<Rightarrow> int" where
  "binade 0 x = 0"
| "binade (Suc n) x =
     (if 2 \<le> x then binade n (x / 2) + 1
      else if x < 1 then binade n (x * 2) - 1
      else 0)"

definition round_half_even :: "rat \<Rightarrow> int" where
  "round_half_even y =
     (let f = \<lfloor>y\<rfloor>; d = y - of_int f
      in if d < 1 / 2 then f else if 1 / 2 < d then f + 1 else if even f then f else f + 1)"

text \<open>
  \<open>double x\<close> is the double nearest to \<open>x\<close>, a tie going to the even mantissa: the
  multiple of the spacing \<open>pow2 (e - 52)\<close> of the doubles around \<open>x\<close> that is nearest to
  \<open>x\<close>, where the exponent is not taken below -1022, the exponent of the subnormal
  doubles. Overflow to infinity is left out: the results of the arithmetic of this program
  stay far below \<open>pow2 1024\<close>. An int of magnitude up to \<open>pow2 53\<close> is its own double, so
  the operations below are also those of \<^verbatim>\<open>+\<close>, \<^verbatim>\<open>-\<close> and \<^verbatim>\<open>*\<close> on such ints,
  alone or mixed with floats.
\<close>

definition double :: "rat \<Rightarrow> rat" where
  "double x =
     (if x = 0 then 0
      else let e = max (- 1022) (binade 1100 \<bar>x\<bar>); q = pow2 (e - 52)
           in of_int (round_half_even (x / q)) * q)"

definition fadd :: "rat \<Rightarrow> rat \<Rightarrow> rat" where
  "fadd a b = double (a + b)"

definition fsub :: "rat \<Rightarrow> rat \<Rightarrow> rat" where
  "fsub a b = double (a - b)"

definition fmul :: "rat \<Rightarrow> rat \<Rightarrow> rat" where
  "fmul a b = double (a * b)"

text \<open>Division of floats, for a divisor that is not zero.\<close>

definition fdiv :: "rat \<Rightarrow> rat \<Rightarrow> rat" where
  "fdiv a b = double (a / b)"

subsection \<open>Built-in functions\<close>

text \<open>\<^verbatim>\<open>int(x)\<close> on a float truncates towards zero.\<close>

definition py_int :: "rat \<Rightarrow> int" where
  "py_int x = (if 0 \<le> x then \<lfloor>x\<rfloor> else \<lceil>x\<rceil>)"

text \<open>
  \<^verbatim>\<open>round(x, 1)\<close> of Python 2.7 rounds the exact value of the double \<open>x\<close> to the
  closest multiple of one tenth, a tie going away from zero (\<open>decimal_round1\<close>), and
  returns the double nearest to that decimal number.
\<close>

definition decimal_round1 :: "rat \<Rightarrow> rat" where
  "decimal_round1 x =
     (if 0 \<le> x then of_int \<lfloor>x * 10 + 1 / 2\<rfloor> / 10 else of_int \<lceil>x * 10 - 1 / 2\<rceil> / 10)"

definition py_round1 :: "rat \<Rightarrow> rat" where
  "py_round1 x = double (decimal_round1 x)"

text \<open>
  Python 2 orders \<^verbatim>\<open>None\<close> below every number: \<^verbatim>\<open>None < x\<close> is true and
  \<^verbatim>\<open>None > x\<close> is false.
\<close>

fun py_lt :: "rat option \<Rightarrow> rat \<Rightarrow> bool" where
  "py_lt None x = True"
| "py_lt (Some p) x = (p < x)"

fun py_gt :: "rat option \<Rightarrow> rat \<Rightarrow> bool" where
  "py_gt None x = False"
| "py_gt (Some p) x = (p > x)"

section \<open>MeArm.py: the joint model over pigpio\<close>

text \<open>
  Modelled from the spec: the pigpio daemon is not part of the repository. Following the
  ActuationChannel interface of the specification, \<^verbatim>\<open>set_servo_pulsewidth\<close> stores the
  pulse width of a gpio and \<^verbatim>\<open>get_servo_pulsewidth\<close> reads the stored value back, zero
  meaning that the servo is off. The model also records every write, in order.
\<close>

record pigpio =
  servo_pw :: "int \<Rightarrow> int"
  writes :: "(int \<times> int) list"

definition set_servo_pulsewidth :: "pigpio \<Rightarrow> int \<Rightarrow> int \<Rightarrow> pigpio" where
  "set_servo_pulsewidth p g w = p\<lparr>servo_pw := (servo_pw p)(g := w), writes := writes p @ [(g, w)]\<rparr>"

definition get_servo_pulsewidth :: "pigpio \<Rightarrow> int \<Rightarrow> int" where
  "get_servo_pulsewidth p g = servo_pw p g"

text \<open>
  A joint definition is a dictionary with the keys gpio, min, max, home, the optional key
  inv, and the key name that the constructor adds.
\<close>

record joint =
  gpio :: int
  min_lim :: rat
  max_lim :: rat
  home_pos :: rat
  inv :: "bool option"
  name :: string

record MeArm =
  base :: joint
  shoulder :: joint
  wrist :: joint
  grip :: joint
  pwMin :: rat
  pwMax :: rat
  pwPdeg :: rat
  io :: pigpio

definition armDef_base :: joint where
  "armDef_base = \<lparr>gpio = 4, min_lim = 0, max_lim = 180, home_pos = 90, inv = Some True, name = ''''\<rparr>"

definition armDef_shoulder :: joint where
  "armDef_shoulder = \<lparr>gpio = 17, min_lim = 50, max_lim = 140, home_pos = 90, inv = None, name = ''''\<rparr>"

definition armDef_wrist :: joint where
  "armDef_wrist = \<lparr>gpio = 27, min_lim = 50, max_lim = 140, home_pos = 90, inv = None, name = ''''\<rparr>"

definition armDef_grip :: joint where
  "armDef_grip = \<lparr>gpio = 22, min_lim = 80, max_lim = 100, home_pos = 90, inv = None, name = ''''\<rparr>"

definition angleToPulse :: "MeArm \<Rightarrow> rat \<Rightarrow> int" where
  "angleToPulse self a = py_int (fadd (fmul a (pwPdeg self)) (pwMin self))"

text \<open>The literal \<^verbatim>\<open>0.05\<close> is the double nearest to one twentieth.\<close>

definition pulseToAngle :: "MeArm \<Rightarrow> int \<Rightarrow> error + rat" where
  "pulseToAngle self p =
     (let pm = double (5 / 100) in
      if pwPdeg self = 0 then Inl ZeroDivisionError
      else let calcDeg = fdiv (fsub (of_int p) (pwMin self)) (pwPdeg self)
           in Inr (py_round1 (fadd calcDeg pm)))"

text \<open>
  \<open>getPos\<close> returns \<open>None\<close> when the servo is off, else the angle, or the pulse width
  itself when \<open>deg\<close> is false.
\<close>

definition getPos :: "MeArm \<Rightarrow> joint \<Rightarrow> bool \<Rightarrow> error + rat option" where
  "getPos self j deg =
     (let pw = get_servo_pulsewidth (io self) (gpio j) in
      if pw = 0 then Inr None
      else if deg then (case pulseToAngle self pw of Inl e \<Rightarrow> Inl e | Inr a \<Rightarrow> Inr (Some a))
      else Inr (Some (of_int pw)))"

text \<open>\<^verbatim>\<open>joint.get('inv', False)\<close>\<close>

definition get_inv :: "joint \<Rightarrow> bool" where
  "get_inv j = (case inv j of None \<Rightarrow> False | Some b \<Rightarrow> b)"

text \<open>
  The stateful methods return the object as the call leaves it together with the value
  returned or the exception raised. The joint given to a method is one of the four
  dictionaries the object holds; the methods read and change it only through the
  parameter, so the model passes the joint beside the object.
\<close>

definition goto :: "MeArm \<Rightarrow> joint \<Rightarrow> rat \<Rightarrow> MeArm \<times> (error + rat option)" where
  "goto self j pos =
     (if min_lim j \<le> pos \<and> pos \<le> max_lim j then
        let a = (if get_inv j then fsub (max_lim j) (fsub pos (min_lim j)) else pos);
            self1 = self\<lparr>io := set_servo_pulsewidth (io self) (gpio j) (angleToPulse self a)\<rparr>
        in (self1, getPos self1 j True)
      else (self, Inl (ValueError (AngleOutsideLimits pos (name j) (min_lim j) (max_lim j)))))"

definition home :: "MeArm \<Rightarrow> joint \<Rightarrow> MeArm \<times> (error + unit)" where
  "home self j = (case goto self j (home_pos j) of
                    (self1, Inl e) \<Rightarrow> (self1, Inl e)
                  | (self1, Inr _) \<Rightarrow> (self1, Inr ()))"

fun home_each :: "MeArm \<Rightarrow> joint list \<Rightarrow> MeArm \<times> (error + unit)" where
  "home_each self [] = (self, Inr ())"
| "home_each self (j # js) = (case home self j of
                                (self1, Inl e) \<Rightarrow> (self1, Inl e)
                              | (self1, Inr _) \<Rightarrow> home_each self1 js)"

definition homeAll :: "MeArm \<Rightarrow> MeArm \<times> (error + unit)" where
  "homeAll self = home_each self [base self, shoulder self, wrist self, grip self]"

text \<open>
  The constructor; \<open>io0\<close> is the connection that \<^verbatim>\<open>pigpio.pi()\<close> returns.
\<close>

definition MeArm_init ::
  "joint \<Rightarrow> joint \<Rightarrow> joint \<Rightarrow> joint \<Rightarrow> rat \<Rightarrow> rat \<Rightarrow> pigpio \<Rightarrow> MeArm \<times> (error + unit)" where
  "MeArm_init b s w g pwMin0 pwMax0 io0 =
     homeAll \<lparr>base = b\<lparr>name := ''base''\<rparr>,
              shoulder = s\<lparr>name := ''shoulder''\<rparr>,
              wrist = w\<lparr>name := ''wrist''\<rparr>,
              grip = g\<lparr>name := ''grip''\<rparr>,
              pwMin = pwMin0, pwMax = pwMax0,
              pwPdeg = fdiv (fsub pwMax0 pwMin0) 180,
              io = io0\<rparr>"

text \<open>
  \<open>setLimit\<close> changes the joint dictionary in place, so the joint is returned with the
  object. Its second half, the part under the comment "Max?", is \<open>setLimit_max\<close>.
  In the first half both \<^verbatim>\<open>raise\<close> statements apply \<^verbatim>\<open>.format\<close> to the
  \<^verbatim>\<open>ValueError\<close> object instead of to the message string, which raises AttributeError.
\<close>

definition setLimit_max :: "MeArm \<Rightarrow> joint \<Rightarrow> rat option \<Rightarrow> (MeArm \<times> joint) \<times> (error + unit)" where
  "setLimit_max self j maxL =
     (case maxL of
        None \<Rightarrow> ((self, j), Inr ())
      | Some mx \<Rightarrow>
          if mx < min_lim j then ((self, j), Inl (ValueError (MaxLessThanMin mx (min_lim j) (name j))))
          else if mx > 180 then ((self, j), Inl (ValueError (MaxGreaterThan180 (name j))))
          else let j1 = j\<lparr>max_lim := mx\<rparr> in
            (case getPos self j1 True of
               Inl e \<Rightarrow> ((self, j1), Inl e)
             | Inr p \<Rightarrow>
                 if py_gt p mx then
                   (case goto self j1 mx of
                      (self1, Inl e) \<Rightarrow> ((self1, j1), Inl e)
                    | (self1, Inr _) \<Rightarrow> ((self1, j1), Inr ()))
                 else ((self, j1), Inr ())))"

definition setLimit ::
  "MeArm \<Rightarrow> joint \<Rightarrow> rat option \<Rightarrow> rat option \<Rightarrow> (MeArm \<times> joint) \<times> (error + unit)" where
  "setLimit self j minL maxL =
     (case minL of
        None \<Rightarrow> setLimit_max self j maxL
      | Some mn \<Rightarrow>
          let mx = (case maxL of Some m \<Rightarrow> m | None \<Rightarrow> max_lim j) in
          if mn > mx then ((self, j), Inl AttributeError)
          else if mn < 0 then ((self, j), Inl AttributeError)
          else let j1 = j\<lparr>min_lim := mn\<rparr> in
            (case getPos self j1 True of
               Inl e \<Rightarrow> ((self, j1), Inl e)
             | Inr p \<Rightarrow>
                 if py_lt p mn then
                   (case goto self j1 mn of
                      (self1, Inl e) \<Rightarrow> ((self1, j1), Inl e)
                    | (self1, Inr _) \<Rightarrow> setLimit_max self1 j1 maxL)
                 else setLimit_max self j1 maxL))"


text \<open>The angle that \<open>goto\<close> converts to a pulse width for a requested position.\<close>

definition servo_angle :: "joint \<Rightarrow> rat \<Rightarrow> rat" where
  "servo_angle j pos = (if get_inv j then fsub (max_lim j) (fsub pos (min_lim j)) else pos)"

definition is_ValueError :: "error + 'a \<Rightarrow> bool" where
  "is_ValueError r = (case r of Inl (ValueError _) \<Rightarrow> True | _ \<Rightarrow> False)"

text \<open>
  The arm of the module's main program, \<^verbatim>\<open>MeArm(**armDef)\<close>, on a connection whose
  servos are all off and which has seen no write.
\<close>

definition pigpio_off :: pigpio where
  "pigpio_off = \<lparr>servo_pw = (\<lambda>_. 0), writes = []\<rparr>"

definition defaultArm :: MeArm where
  "defaultArm =
     fst (MeArm_init armDef_base armDef_shoulder armDef_wrist armDef_grip 550 2500 pigpio_off)"

section \<open>MeArmControl.py: the register protocol over I2C\<close>



definition RegConfig :: "8 word" where "RegConfig = 99"
definition RegBase :: "8 word" where "RegBase = 98"
definition RegShoulder :: "8 word" where "RegShoulder = 115"
definition RegWrist :: "8 word" where "RegWrist = 119"
definition RegGrip :: "8 word" where "RegGrip = 103"

definition RegSubMin :: "8 word" where "RegSubMin = 193"
definition RegSubMax :: "8 word" where "RegSubMax = 194"











section \<open>MeArmServer.py: the control stick\<close>

text \<open>
  \<^verbatim>\<open>cherrypy.controlStick\<close> is \<open>None\<close> or the dictionary of the holder. A request
  carries the id stored in the caller's session (if any), the caller's address and the
  flag \<open>inControl\<close>. The clock is one reading \<open>now\<close> for each request, and \<open>fresh\<close> is
  the text of the UUID that \<^verbatim>\<open>uuid.uuid1()\<close> would give.
\<close>

record stick =
  sid :: string
  tmout :: rat
  stick_name :: string
  stick_ip :: string

record request =
  session_id :: "string option"
  remote_ip :: string
  inControl :: bool

definition CONTROL_STICK_TIMEOUT :: rat where
  "CONTROL_STICK_TIMEOUT = 60"

definition checkControlExpiration :: "rat \<Rightarrow> stick option \<Rightarrow> stick option" where
  "checkControlExpiration now cs =
     (case cs of
        None \<Rightarrow> None
      | Some c \<Rightarrow> if now > tmout c then None else Some c)"

definition controlStickTool ::
  "bool \<Rightarrow> rat \<Rightarrow> stick option \<times> request \<Rightarrow> (stick option \<times> request) \<times> (error + unit)" where
  "controlStickTool noControlError now st =
     (let req1 = (snd st)\<lparr>inControl := False\<rparr>;
          caller = session_id req1;
          cs1 = checkControlExpiration now (fst st)
      in case cs1 of
           None \<Rightarrow>
             if noControlError then ((cs1, req1), Inl (HTTPError 400 YouDoNotHaveControl))
             else ((cs1, req1), Inr ())
         | Some c \<Rightarrow>
             if Some (sid c) \<noteq> caller then
               if noControlError then ((cs1, req1), Inl (HTTPError 400 YouDoNotHaveControl))
               else ((cs1, req1), Inr ())
             else ((Some (c\<lparr>tmout := fadd now CONTROL_STICK_TIMEOUT\<rparr>), req1\<lparr>inControl := True\<rparr>),
                   Inr ()))"

text \<open>\<^verbatim>\<open>str.strip()\<close> removes the white space at both ends.\<close>

definition isspace :: "char \<Rightarrow> bool" where
  "isspace c = (c = CHR '' '' \<or> c = CHR 0x09 \<or> c = CHR 0x0A \<or> c = CHR 0x0B
                \<or> c = CHR 0x0C \<or> c = CHR 0x0D)"

definition strip :: "string \<Rightarrow> string" where
  "strip s = rev (dropWhile isspace (rev (dropWhile isspace s)))"

text \<open>
  The handler of GET on the control stick. Its parameter \<open>name\<close> defaults to \<open>None\<close>,
  and its first statement calls \<^verbatim>\<open>name.strip()\<close>, which raises AttributeError on
  \<open>None\<close>.
\<close>

definition ControlStick_GET ::
  "string option \<Rightarrow> rat \<Rightarrow> string \<Rightarrow> stick option \<times> request
     \<Rightarrow> (stick option \<times> request) \<times> (error + unit)" where
  "ControlStick_GET name0 now fresh st =
     (case name0 of
        None \<Rightarrow> (st, Inl AttributeError)
      | Some n \<Rightarrow>
          let name1 = (if strip n = [] then None else Some (strip n)) in
          (case fst st of
             Some c \<Rightarrow>
               if \<not> inControl (snd st) then
                 (st, Inl (HTTPError 402 (AskOrWait (stick_name c) (stick_ip c) (fsub (tmout c) now))))
               else (st, Inr ())
           | None \<Rightarrow>
               let req1 = (case session_id (snd st) of
                             None \<Rightarrow> (snd st)\<lparr>session_id := Some fresh\<rparr>
                           | Some i \<Rightarrow> if i = [] then (snd st)\<lparr>session_id := Some fresh\<rparr>
                                       else snd st);
                   grabbed = \<lparr>sid = (case session_id req1 of Some i \<Rightarrow> i | None \<Rightarrow> fresh),
                              tmout = fadd now CONTROL_STICK_TIMEOUT,
                              stick_name = (case name1 of None \<Rightarrow> ''Anonymous'' | Some x \<Rightarrow> x),
                              stick_ip = remote_ip req1\<rparr>
               in ((Some grabbed, req1), Inr ())))"

definition ControlStick_DELETE ::
  "stick option \<times> request \<Rightarrow> (stick option \<times> request) \<times> (error + unit)" where
  "ControlStick_DELETE st =
     (if inControl (snd st) then ((None, (snd st)\<lparr>inControl := False\<rparr>), Inr ())
      else (st, Inl (HTTPError 400 NotYoursToRelease)))"

text \<open>
  The configuration switches the control stick tool on for every path, without
  \<open>noControlError\<close> for the control stick service: a GET of that service runs the
  tool and then the handler.
\<close>

definition takeStick ::
  "string option \<Rightarrow> rat \<Rightarrow> string \<Rightarrow> stick option \<times> request
     \<Rightarrow> (stick option \<times> request) \<times> (error + unit)" where
  "takeStick name0 now fresh st =
     (case controlStickTool False now st of
        (st1, Inl e) \<Rightarrow> (st1, Inl e)
      | (st1, Inr _) \<Rightarrow> ControlStick_GET name0 now fresh st1)"

text \<open>Two callers without a session id yet, as the scenario of the specification has them.\<close>

definition callerA :: request where
  "callerA = \<lparr>session_id = None, remote_ip = ''10.0.0.1'', inControl = False\<rparr>"

definition callerB :: request where
  "callerB = \<lparr>session_id = None, remote_ip = ''10.0.0.2'', inControl = False\<rparr>"

definition stickA :: stick where
  "stickA = \<lparr>sid = ''uuid-A'', tmout = 60, stick_name = ''A'', stick_ip = ''10.0.0.1''\<rparr>"

section \<open>Properties of the double arithmetic\<close>

text \<open>Rules that evaluate the rounding on numerals.\<close>

lemma binade_numeral:
  "binade (numeral k) x =
     (if 2 \<le> x then binade (pred_numeral k) (x / 2) + 1
      else if x < 1 then binade (pred_numeral k) (x * 2) - 1
      else 0)"
  by (simp add: numeral_eq_Suc)

lemma floor_rat_numeral:
  "\<lfloor>(numeral a :: rat) / numeral b\<rfloor> = numeral a div numeral b"
  "\<lfloor>- (numeral a :: rat) / numeral b\<rfloor> = - numeral a div numeral b"
  "\<lfloor>- ((numeral a :: rat) / numeral b)\<rfloor> = - numeral a div numeral b"
  using floor_divide_of_int_eq [of "numeral a" "numeral b", where ?'a = rat]
    floor_divide_of_int_eq [of "- numeral a" "numeral b", where ?'a = rat]
  by simp_all

lemmas double_eval = double_def fadd_def fsub_def fmul_def fdiv_def Let_def binade_numeral
  pow2_def round_half_even_def floor_rat_numeral

lemma pwPdeg_default: "fdiv (fsub 2500 550) 180 = 6098624495397547 / 562949953421312"
  by (simp add: double_eval)

lemma pm_double: "double (5 / 100) = 3602879701896397 / 72057594037927936"
  by (simp add: double_eval)

lemma pm_double': "double (1 / 20) = 3602879701896397 / 72057594037927936"
  by (simp add: double_eval)

lemma pow2_vals:
  "pow2 8 = 256" "pow2 11 = 2048" "pow2 12 = 4096"
  "pow2 (- 43) = 1 / 8796093022208" "pow2 (- 42) = 1 / 4398046511104"
  "pow2 (- 46) = 1 / 70368744177664"
  by (simp_all add: pow2_def)

text \<open>
  The distance of a number from its double: at most half the spacing of the doubles
  around it.
\<close>

lemma pow2_powi: "pow2 k = 2 powi k"
  by (simp add: pow2_def power_int_def field_simps)

lemma pow2_pos: "0 < pow2 k"
  by (simp add: pow2_powi)

lemma pow2_mono: "j \<le> k \<Longrightarrow> pow2 j \<le> pow2 k"
  by (simp add: pow2_powi power_int_increasing)

lemma pow2_Suc: "pow2 (k + 1) = 2 * pow2 k"
  by (simp add: pow2_powi power_int_add)

lemma pow2_pred: "pow2 (k - 1) = pow2 k / 2"
  using pow2_Suc [of "k - 1"] by simp

lemma pow2_gt_1: "1 < pow2 k \<Longrightarrow> 1 \<le> k"
proof (rule ccontr)
  assume a: "1 < pow2 k" and "\<not> 1 \<le> k"
  then have "k \<le> 0" by simp
  from pow2_mono [OF this] have "pow2 k \<le> 1" by (simp add: pow2_def)
  with a show False by simp
qed

lemma pow2_gt_2: "2 < pow2 k \<Longrightarrow> 2 \<le> k"
proof (rule ccontr)
  assume a: "2 < pow2 k" and "\<not> 2 \<le> k"
  then have "k \<le> 1" by simp
  from pow2_mono [OF this] have "pow2 k \<le> 2" by (simp add: pow2_def)
  with a show False by simp
qed

lemma binade_upper: "x < pow2 k \<Longrightarrow> 1 - int n \<le> k \<Longrightarrow> binade n x \<le> k - 1"
proof (induction n arbitrary: x k)
  case 0
  then show ?case by simp
next
  case (Suc n)
  consider "2 \<le> x" | "x < 1" | "1 \<le> x" "x < 2" by linarith
  then show ?case
  proof cases
    case 1
    with Suc.prems have "2 < pow2 k" by simp
    then have k: "2 \<le> k" by (rule pow2_gt_2)
    have "x / 2 < pow2 (k - 1)" using Suc.prems(1) by (simp add: pow2_pred)
    moreover have "1 - int n \<le> k - 1" using k by simp
    ultimately have "binade n (x / 2) \<le> k - 1 - 1" by (rule Suc.IH)
    with 1 show ?thesis by simp
  next
    case 2
    have "x * 2 < pow2 (k + 1)" using Suc.prems(1) by (simp add: pow2_Suc)
    moreover have "1 - int n \<le> k + 1" using Suc.prems(2) by simp
    ultimately have "binade n (x * 2) \<le> k + 1 - 1" by (rule Suc.IH)
    with 2 show ?thesis by simp
  next
    case 3
    with Suc.prems have "1 < pow2 k" by simp
    then have "1 \<le> k" by (rule pow2_gt_1)
    with 3 show ?thesis by simp
  qed
qed

lemma round_half_even_floor: "\<lfloor>y\<rfloor> \<le> round_half_even y"
  by (simp add: round_half_even_def Let_def)

lemma round_half_even_err: "\<bar>of_int (round_half_even y) - y\<bar> \<le> 1 / 2"
proof -
  have "of_int \<lfloor>y\<rfloor> \<le> y" "y < of_int \<lfloor>y\<rfloor> + 1" by linarith+
  then show ?thesis by (auto simp: round_half_even_def Let_def)
qed

lemma double_exponent:
  assumes "\<bar>x\<bar> < pow2 k" "- 1021 \<le> k"
  shows "max (- 1022) (binade 1100 \<bar>x\<bar>) \<le> k - 1"
proof -
  have "binade 1100 \<bar>x\<bar> \<le> k - 1"
    using assms by (intro binade_upper) simp_all
  with assms(2) show ?thesis by simp
qed

lemma double_err:
  assumes "\<bar>x\<bar> < pow2 k" "- 1021 \<le> k"
  shows "\<bar>double x - x\<bar> \<le> pow2 (k - 54)"
proof (cases "x = 0")
  case True
  then show ?thesis using pow2_pos [of "k - 54"] by (simp add: double_def)
next
  case False
  define e where "e = max (- 1022) (binade 1100 \<bar>x\<bar>)"
  define q where "q = pow2 (e - 52)"
  have e: "e \<le> k - 1" unfolding e_def using assms by (rule double_exponent)
  have q0: "0 < q" unfolding q_def by (rule pow2_pos)
  have d: "double x = of_int (round_half_even (x / q)) * q"
    using False by (simp add: double_def Let_def e_def q_def)
  have "\<bar>double x - x\<bar> = \<bar>of_int (round_half_even (x / q)) - x / q\<bar> * q"
    using q0 by (simp add: d abs_mult [symmetric] field_simps)
  also have "\<dots> \<le> 1 / 2 * q"
    using round_half_even_err [of "x / q"] q0 by (intro mult_right_mono) simp_all
  also have "\<dots> = pow2 (e - 53)"
    using pow2_pred [of "e - 52"] by (simp add: q_def)
  also have "\<dots> \<le> pow2 (k - 54)" using e by (intro pow2_mono) simp
  finally show ?thesis .
qed

lemma double_nonneg: "0 \<le> x \<Longrightarrow> 0 \<le> double x"
proof (cases "x = 0")
  case True
  then show ?thesis by (simp add: double_def)
next
  case False
  assume x: "0 \<le> x"
  define q where "q = pow2 (max (- 1022) (binade 1100 \<bar>x\<bar>) - 52)"
  have q0: "0 < q" unfolding q_def by (rule pow2_pos)
  then have "0 \<le> x / q" using x by simp
  then have "0 \<le> \<lfloor>x / q\<rfloor>" by simp
  with round_half_even_floor [of "x / q"] have "0 \<le> round_half_even (x / q)" by linarith
  with q0 show ?thesis using False by (simp add: double_def Let_def q_def)
qed

lemma double_ge_int:
  assumes "of_int n \<le> x" "\<bar>x\<bar> < pow2 k" "- 1021 \<le> k" "k \<le> 53"
  shows "of_int n \<le> double x"
proof (cases "x = 0")
  case True
  with assms(1) show ?thesis by (simp add: double_def)
next
  case False
  define e where "e = max (- 1022) (binade 1100 \<bar>x\<bar>)"
  define q where "q = pow2 (e - 52)"
  have e: "e \<le> 52" using double_exponent [OF assms(2,3)] assms(4) by (simp add: e_def)
  have q0: "0 < q" unfolding q_def by (rule pow2_pos)
  have qi: "1 / q = of_int (2 ^ nat (52 - e))"
    using e by (simp add: q_def pow2_def)
  define m where "m = n * 2 ^ nat (52 - e)"
  have mq: "(of_int m :: rat) * q = of_int n"
    using qi q0 by (simp add: m_def field_simps)
  have "(of_int m :: rat) = of_int n * (1 / q)" by (simp add: qi m_def)
  also have "\<dots> \<le> x / q" using assms(1) q0 by (simp add: field_simps)
  finally have "m \<le> \<lfloor>x / q\<rfloor>" by (simp add: le_floor_iff)
  with round_half_even_floor [of "x / q"]
  have "m \<le> round_half_even (x / q)" by linarith
  then have "(of_int m :: rat) \<le> of_int (round_half_even (x / q))"
    by (simp only: of_int_le_iff)
  then have "of_int m * q \<le> of_int (round_half_even (x / q)) * q"
    using q0 by (intro mult_right_mono) simp_all
  with mq have "of_int n \<le> of_int (round_half_even (x / q)) * q" by (simp only:)
  moreover have "double x = of_int (round_half_even (x / q)) * q"
    using False by (simp add: double_def Let_def e_def q_def)
  ultimately show ?thesis by (simp only:)
qed

lemma double_bounds:
  assumes "0 \<le> x" "x < pow2 k" "- 1021 \<le> k"
  shows "0 \<le> double x" "double x \<le> x + pow2 (k - 54)" "x - pow2 (k - 54) \<le> double x"
proof -
  from assms(1,2) have "\<bar>x\<bar> < pow2 k" by simp
  from double_err [OF this assms(3)]
  show "double x \<le> x + pow2 (k - 54)" "x - pow2 (k - 54) \<le> double x" by linarith+
  from assms(1) show "0 \<le> double x" by (rule double_nonneg)
qed

section \<open>Properties of the joint model\<close>

lemma angleToPulse_io [simp]: "angleToPulse (self\<lparr>io := p\<rparr>) a = angleToPulse self a"
  by (simp add: angleToPulse_def)

lemma goto_in_range:
  "min_lim j \<le> pos \<Longrightarrow> pos \<le> max_lim j \<Longrightarrow>
     fst (goto self j pos) =
       self\<lparr>io := set_servo_pulsewidth (io self) (gpio j) (angleToPulse self (servo_angle j pos))\<rparr>"
  by (simp add: goto_def servo_angle_def Let_def)

lemma getPos_not_ValueError: "\<not> is_ValueError (getPos self j deg)"
  by (simp add: getPos_def pulseToAngle_def is_ValueError_def Let_def split: sum.splits error.splits)

text \<open>
  Claim C1. For every joint, inverted or not, a requested position below the joint's
  minimum or above its maximum makes \<open>goto\<close> raise ValueError (the OutOfRangeError
  of the specification): nothing is written to the channel, the object is the one before
  the call, and the position read back is unchanged. The test is on the requested angle,
  before any inversion: ValueError is raised exactly when the requested angle is outside
  the limits.
\<close>

theorem goto_outside_limits:
  "(pos < min_lim j \<or> max_lim j < pos \<longrightarrow>
      goto self j pos = (self, Inl (ValueError (AngleOutsideLimits pos (name j) (min_lim j) (max_lim j))))
      \<and> writes (io (fst (goto self j pos))) = writes (io self)
      \<and> getPos (fst (goto self j pos)) j True = getPos self j True)
   \<and> is_ValueError (snd (goto self j pos)) = (pos < min_lim j \<or> max_lim j < pos)"
  using getPos_not_ValueError by (auto simp: goto_def is_ValueError_def Let_def)

text \<open>The inverted base joint with limits 50 and 180, asked for 45 degrees.\<close>

theorem goto_outside_limits_witness:
  "((45::rat) < min_lim (armDef_base\<lparr>min_lim := 50\<rparr>) \<or> max_lim (armDef_base\<lparr>min_lim := 50\<rparr>) < 45)
   \<and> get_inv (armDef_base\<lparr>min_lim := 50\<rparr>)
   \<and> goto defaultArm (armDef_base\<lparr>min_lim := 50\<rparr>) 45
        = (defaultArm, Inl (ValueError (AngleOutsideLimits 45 [] 50 180)))
   \<and> is_ValueError (snd (goto defaultArm (armDef_base\<lparr>min_lim := 50\<rparr>) 45))"
  using goto_outside_limits [of 45 "armDef_base\<lparr>min_lim := 50\<rparr>" defaultArm]
  by (simp add: armDef_base_def get_inv_def is_ValueError_def)

lemma reflect_90: "fsub 140 (fsub 90 50) = 100"
  by (simp add: double_eval)

text \<open>
  Claim C2. For a joint with the invert flag set and a target \<open>t\<close> within the limits,
  \<open>goto\<close> writes the pulse width of the reflected angle \<open>max - (t - min)\<close>, the two
  differences being those of Python, to the joint's gpio; where both differences are
  doubles, as they are for whole degrees, that is the exact reflected angle. Hence an
  inverted joint with limits 50 and 140 sent to 90 gets the pulse width that a joint
  without inversion gets when sent to 100.
\<close>

theorem goto_inverted:
  "(get_inv j \<and> min_lim j \<le> t \<and> t \<le> max_lim j \<longrightarrow>
      io (fst (goto self j t)) =
        set_servo_pulsewidth (io self) (gpio j)
          (angleToPulse self (fsub (max_lim j) (fsub t (min_lim j)))))
   \<and> (get_inv j \<and> min_lim j \<le> t \<and> t \<le> max_lim j
        \<and> double (t - min_lim j) = t - min_lim j
        \<and> double (max_lim j - (t - min_lim j)) = max_lim j - (t - min_lim j) \<longrightarrow>
      io (fst (goto self j t)) =
        set_servo_pulsewidth (io self) (gpio j) (angleToPulse self (max_lim j - (t - min_lim j))))
   \<and> (get_inv j1 \<and> min_lim j1 = 50 \<and> max_lim j1 = 140 \<and>
        \<not> get_inv j2 \<and> min_lim j2 \<le> 100 \<and> 100 \<le> max_lim j2 \<longrightarrow>
        servo_pw (io (fst (goto self j1 90))) (gpio j1) = servo_pw (io (fst (goto self j2 100))) (gpio j2))"
proof (intro conjI impI)
  assume "get_inv j \<and> min_lim j \<le> t \<and> t \<le> max_lim j"
  then show "io (fst (goto self j t)) =
        set_servo_pulsewidth (io self) (gpio j)
          (angleToPulse self (fsub (max_lim j) (fsub t (min_lim j))))"
    by (simp add: goto_in_range servo_angle_def)
next
  assume "get_inv j \<and> min_lim j \<le> t \<and> t \<le> max_lim j
        \<and> double (t - min_lim j) = t - min_lim j
        \<and> double (max_lim j - (t - min_lim j)) = max_lim j - (t - min_lim j)"
  then show "io (fst (goto self j t)) =
        set_servo_pulsewidth (io self) (gpio j) (angleToPulse self (max_lim j - (t - min_lim j)))"
    by (simp add: goto_in_range servo_angle_def fsub_def)
next
  assume "get_inv j1 \<and> min_lim j1 = 50 \<and> max_lim j1 = 140 \<and>
        \<not> get_inv j2 \<and> min_lim j2 \<le> 100 \<and> 100 \<le> max_lim j2"
  then show "servo_pw (io (fst (goto self j1 90))) (gpio j1)
      = servo_pw (io (fst (goto self j2 100))) (gpio j2)"
    by (simp add: goto_in_range servo_angle_def set_servo_pulsewidth_def reflect_90)
qed


lemma defaultArm_eq:
  "defaultArm =
     \<lparr>base = armDef_base\<lparr>name := ''base''\<rparr>,
      shoulder = armDef_shoulder\<lparr>name := ''shoulder''\<rparr>,
      wrist = armDef_wrist\<lparr>name := ''wrist''\<rparr>,
      grip = armDef_grip\<lparr>name := ''grip''\<rparr>,
      pwMin = 550, pwMax = 2500, pwPdeg = 6098624495397547 / 562949953421312,
      io = \<lparr>servo_pw = (\<lambda>_. 0)(4 := 1525, 17 := 1525, 27 := 1525, 22 := 1525),
            writes = [(4, 1525), (17, 1525), (27, 1525), (22, 1525)]\<rparr>\<rparr>"
  by (simp add: defaultArm_def MeArm_init_def homeAll_def home_def goto_def getPos_def
      pulseToAngle_def angleToPulse_def get_inv_def set_servo_pulsewidth_def get_servo_pulsewidth_def
      py_int_def py_round1_def decimal_round1_def pigpio_off_def armDef_base_def
      armDef_shoulder_def armDef_wrist_def armDef_grip_def double_eval)

lemma home_ok:
  "home self j = (self1, Inr ()) \<Longrightarrow>
     self1 = self\<lparr>io := set_servo_pulsewidth (io self) (gpio j)
                         (angleToPulse self (servo_angle j (home_pos j)))\<rparr>"
  by (auto simp: home_def goto_def servo_angle_def Let_def split: if_splits sum.splits prod.splits)

lemma angleToPulse_cal:
  "pwMin a = pwMin b \<Longrightarrow> pwPdeg a = pwPdeg b \<Longrightarrow> angleToPulse a x = angleToPulse b x"
  by (simp add: angleToPulse_def)

lemma home_each_ok:
  "home_each self js = (self1, Inr ()) \<Longrightarrow>
     writes (io self1) = writes (io self) @
        map (\<lambda>j. (gpio j, angleToPulse self (servo_angle j (home_pos j)))) js
     \<and> pwMin self1 = pwMin self \<and> pwPdeg self1 = pwPdeg self"
proof (induction js arbitrary: self)
  case Nil
  then show ?case by simp
next
  case (Cons j js)
  obtain s1 r where h: "home self j = (s1, r)" by (cases "home self j")
  with Cons.prems have r: "r = Inr ()" and rest: "home_each s1 js = (self1, Inr ())"
    by (auto split: sum.splits)
  from h r have s1: "s1 = self\<lparr>io := set_servo_pulsewidth (io self) (gpio j)
                         (angleToPulse self (servo_angle j (home_pos j)))\<rparr>"
    using home_ok by blast
  have cal: "pwMin s1 = pwMin self" "pwPdeg s1 = pwPdeg self" by (simp_all add: s1)
  have w: "writes (io s1) = writes (io self) @ [(gpio j, angleToPulse self (servo_angle j (home_pos j)))]"
    by (simp add: s1 set_servo_pulsewidth_def)
  have "\<And>x. angleToPulse s1 x = angleToPulse self x"
    using cal by (rule angleToPulse_cal)
  with Cons.IH [OF rest] cal w show ?case by simp
qed

text \<open>
  Claim C9. When the constructor returns, it has written to the channel, in the order
  base, shoulder, wrist, grip, the pulse width of each joint's home position:
  constructing the object moves the arm.
\<close>

theorem MeArm_init_homes_all:
  "MeArm_init b s w g lo hi io0 = (self, Inr ()) \<longrightarrow>
     writes (io self) = writes io0 @
       [(gpio b, angleToPulse self (servo_angle b (home_pos b))),
        (gpio s, angleToPulse self (servo_angle s (home_pos s))),
        (gpio w, angleToPulse self (servo_angle w (home_pos w))),
        (gpio g, angleToPulse self (servo_angle g (home_pos g)))]"
proof
  assume a: "MeArm_init b s w g lo hi io0 = (self, Inr ())"
  define s0 where "s0 = \<lparr>base = b\<lparr>name := ''base''\<rparr>, shoulder = s\<lparr>name := ''shoulder''\<rparr>,
     wrist = w\<lparr>name := ''wrist''\<rparr>, grip = g\<lparr>name := ''grip''\<rparr>, pwMin = lo, pwMax = hi,
     pwPdeg = fdiv (fsub hi lo) 180, io = io0\<rparr>"
  from a have "home_each s0 [base s0, shoulder s0, wrist s0, grip s0] = (self, Inr ())"
    by (simp add: MeArm_init_def homeAll_def s0_def)
  from home_each_ok [OF this]
  have w: "writes (io self) = writes (io s0) @
        map (\<lambda>j. (gpio j, angleToPulse s0 (servo_angle j (home_pos j))))
          [base s0, shoulder s0, wrist s0, grip s0]"
    and cal: "pwMin self = pwMin s0" "pwPdeg self = pwPdeg s0" by simp_all
  have "\<And>x. angleToPulse self x = angleToPulse s0 x"
    using cal by (rule angleToPulse_cal)
  with w show "writes (io self) = writes io0 @
       [(gpio b, angleToPulse self (servo_angle b (home_pos b))),
        (gpio s, angleToPulse self (servo_angle s (home_pos s))),
        (gpio w, angleToPulse self (servo_angle w (home_pos w))),
        (gpio g, angleToPulse self (servo_angle g (home_pos g)))]"
    by (simp add: s0_def servo_angle_def get_inv_def)
qed

text \<open>The arm of the main program: all four joints are sent to 90 degrees.\<close>

theorem MeArm_init_homes_all_witness:
  "MeArm_init armDef_base armDef_shoulder armDef_wrist armDef_grip 550 2500 pigpio_off
     = (defaultArm, Inr ())
   \<and> writes (io defaultArm) = [(4, 1525), (17, 1525), (27, 1525), (22, 1525)]"
proof -
  have a: "MeArm_init armDef_base armDef_shoulder armDef_wrist armDef_grip 550 2500 pigpio_off
     = (defaultArm, Inr ())"
   unfolding defaultArm_eq
   by (simp add: MeArm_init_def homeAll_def home_def goto_def getPos_def
      pulseToAngle_def angleToPulse_def get_inv_def set_servo_pulsewidth_def get_servo_pulsewidth_def
      py_int_def py_round1_def decimal_round1_def pigpio_off_def armDef_base_def
      armDef_shoulder_def armDef_wrist_def armDef_grip_def double_eval)
  from MeArm_init_homes_all [of armDef_base armDef_shoulder armDef_wrist armDef_grip 550 2500 pigpio_off defaultArm] a
  have "writes (io defaultArm) = writes pigpio_off @
       [(gpio armDef_base, angleToPulse defaultArm (servo_angle armDef_base (home_pos armDef_base))),
        (gpio armDef_shoulder, angleToPulse defaultArm (servo_angle armDef_shoulder (home_pos armDef_shoulder))),
        (gpio armDef_wrist, angleToPulse defaultArm (servo_angle armDef_wrist (home_pos armDef_wrist))),
        (gpio armDef_grip, angleToPulse defaultArm (servo_angle armDef_grip (home_pos armDef_grip)))]"
    by simp
  then have "writes (io defaultArm) = [(4, 1525), (17, 1525), (27, 1525), (22, 1525)]"
    by (simp add: defaultArm_eq)
  with a show ?thesis by simp
qed


lemma goto_cal:
  "pwMin (fst (goto self j p)) = pwMin self" "pwPdeg (fst (goto self j p)) = pwPdeg self"
  by (simp_all add: goto_def Let_def)

lemma home_cal:
  "pwMin (fst (home self j)) = pwMin self" "pwPdeg (fst (home self j)) = pwPdeg self"
  using goto_cal [of self j "home_pos j"]
  by (auto simp: home_def split: prod.splits sum.splits)

lemma home_each_cal:
  "pwMin (fst (home_each self js)) = pwMin self \<and> pwPdeg (fst (home_each self js)) = pwPdeg self"
proof (induction js arbitrary: self)
  case Nil
  then show ?case by simp
next
  case (Cons j js)
  obtain s1 r where h: "home self j = (s1, r)" by (cases "home self j")
  with home_cal [of self j] have c: "pwMin s1 = pwMin self" "pwPdeg s1 = pwPdeg self" by simp_all
  show ?case
  proof (cases r)
    case (Inl e)
    with h c show ?thesis by simp
  next
    case (Inr u)
    with h c Cons.IH [of s1] show ?thesis by simp
  qed
qed

lemma MeArm_init_cal:
  "pwMin (fst (MeArm_init b s w g lo hi io0)) = lo"
  "pwPdeg (fst (MeArm_init b s w g lo hi io0)) = fdiv (fsub hi lo) 180"
  by (simp_all add: MeArm_init_def homeAll_def home_each_cal del: home_each.simps)

lemma roundtrip_default:
  assumes a: "0 \<le> a" "a \<le> 180"
    and cal: "pwMin self = 550" "pwPdeg self = 6098624495397547 / 562949953421312"
  shows "\<exists>r. pulseToAngle self (angleToPulse self a) = Inr r
           \<and> \<bar>r - a\<bar> \<le> 1 / 10 + 1 / 10 ^ 12"
proof -
  define D :: rat where "D = 6098624495397547 / 562949953421312"
  define pm :: rat where "pm = 3602879701896397 / 72057594037927936"
  define t1 where "t1 = double (a * D)"
  define t2 where "t2 = double (t1 + 550)"
  define p where "p = \<lfloor>t2\<rfloor>"
  define w where "w = double (of_int p - 550)"
  define x1 where "x1 = w / D"
  define c where "c = double x1"
  define s where "s = double (c + pm)"
  define r0 where "r0 = (of_int \<lfloor>s * 10 + 1 / 2\<rfloor> / 10 :: rat)"
  define r where "r = double r0"
  have m: "0 \<le> a * D" "a * D < pow2 11"
    using a unfolding D_def pow2_vals by linarith+
  have t1: "0 \<le> t1" "t1 \<le> a * D + 1 / 8796093022208" "a * D - 1 / 8796093022208 \<le> t1"
    using double_bounds [OF m] by (simp_all add: t1_def pow2_vals)
  have u: "0 \<le> t1 + 550" "t1 + 550 < pow2 12"
    using t1 a unfolding D_def pow2_vals by linarith+
  have t2: "t2 \<le> t1 + 550 + 1 / 4398046511104" "t1 + 550 - 1 / 4398046511104 \<le> t2"
    using double_bounds [OF u] by (simp_all add: t2_def pow2_vals)
  have "of_int 550 \<le> t1 + 550" using t1(1) by simp
  moreover have "\<bar>t1 + 550\<bar> < pow2 12" using u by simp
  ultimately have "of_int 550 \<le> double (t1 + 550)" by (rule double_ge_int) simp_all
  then have t2g: "550 \<le> t2" by (simp add: t2_def)
  have p: "of_int p \<le> t2" "t2 < of_int p + 1" unfolding p_def by linarith+
  have "(550::int) \<le> p" unfolding p_def using t2g by (simp add: le_floor_iff)
  then have p550: "(550::rat) \<le> of_int p" by linarith
  have v: "0 \<le> of_int p - (550::rat)" "of_int p - (550::rat) < pow2 11"
    using p550 p(1) t2(1) t1(2) a unfolding D_def pow2_vals by linarith+
  have w: "0 \<le> w" "w \<le> of_int p - 550 + 1 / 8796093022208"
    "of_int p - 550 - 1 / 8796093022208 \<le> w"
    using double_bounds [OF v] by (simp_all add: w_def pow2_vals)
  have xD: "x1 * (6098624495397547 / 562949953421312) = w" by (simp add: x1_def D_def)
  have x1: "0 \<le> x1" "x1 < pow2 8"
    using w(1,2) p(1) t2(1) t1(2) a xD unfolding D_def pow2_vals by linarith+
  have c: "0 \<le> c" "c \<le> x1 + 1 / 70368744177664" "x1 - 1 / 70368744177664 \<le> c"
    using double_bounds [OF x1] by (simp_all add: c_def pow2_vals)
  have x1b: "x1 \<le> 182"
    using xD w(2) p(1) t2(1) t1(2) a(2) unfolding D_def by linarith
  have s0: "0 \<le> c + pm" "c + pm < pow2 8"
    using c x1b unfolding pm_def pow2_vals by linarith+
  have s: "0 \<le> s" "s \<le> c + pm + 1 / 70368744177664" "c + pm - 1 / 70368744177664 \<le> s"
    using double_bounds [OF s0] by (simp_all add: s_def pow2_vals)
  have f: "of_int \<lfloor>s * 10 + 1 / 2\<rfloor> \<le> s * 10 + 1 / 2"
    "s * 10 + 1 / 2 < of_int \<lfloor>s * 10 + 1 / 2\<rfloor> + 1" by linarith+
  have r0: "r0 \<le> s + 1 / 20" "s - 1 / 20 < r0"
    using f by (simp_all add: r0_def field_simps)
  have "\<lfloor>s * 10 + 1 / 2\<rfloor> \<ge> 0" using s(1) by simp
  then have r0n: "0 \<le> r0" by (simp add: r0_def)
  have r0b: "r0 < pow2 8"
    using r0(1) s(2) c(2) x1b unfolding pm_def pow2_vals by linarith
  have r: "r \<le> r0 + 1 / 70368744177664" "r0 - 1 / 70368744177664 \<le> r"
    using double_bounds [OF r0n r0b] by (simp_all add: r_def pow2_vals)
  have up: "r - a \<le> 1 / 10 + 1 / 10 ^ 12"
    using r(1) r0(1) s(2) c(2) xD w(2) p(1) t2(1) t1(2) a unfolding D_def pm_def by simp
  have lo: "- (1 / 10 + 1 / 10 ^ 12) \<le> r - a"
    using r(2) r0(2) s(3) c(3) xD w(3) p(2) t2(2) t1(3) a unfolding D_def pm_def by simp
  have "angleToPulse self a = p"
    using t2g by (simp add: angleToPulse_def py_int_def cal fadd_def fmul_def p_def t2_def t1_def D_def)
  then have "pulseToAngle self (angleToPulse self a) = Inr r"
    using s(1) by (simp add: pulseToAngle_def cal py_round1_def decimal_round1_def pm_double pm_double'
        fadd_def fsub_def fdiv_def Let_def r_def r0_def s_def c_def x1_def w_def D_def pm_def)
  moreover from up lo have "\<bar>r - a\<bar> \<le> 1 / 10 + 1 / 10 ^ 12" by (simp only: abs_le_iff) simp
  ultimately show ?thesis by blast
qed

text \<open>
  Claim C3, as stated, fails in double arithmetic. The angle 18 has the pulse width 745,
  which converts back to the double nearest to 18.1; that double lies above 18.1, so the
  result is more than one tenth of a degree away from 18.
\<close>

theorem angle_roundtrip_counterexample:
  "defaultArm =
     fst (MeArm_init armDef_base armDef_shoulder armDef_wrist armDef_grip 550 2500 pigpio_off)
   \<and> angleToPulse defaultArm 18 = 745
   \<and> pulseToAngle defaultArm (angleToPulse defaultArm 18)
       = Inr (2547348539231437 / 140737488355328)
   \<and> \<not> \<bar>2547348539231437 / 140737488355328 - (18::rat)\<bar> \<le> 1 / 10"
  by (simp add: defaultArm_def [symmetric] defaultArm_eq angleToPulse_def pulseToAngle_def
      py_int_def py_round1_def decimal_round1_def double_eval)

text \<open>
  Claim C3, amended. With the default calibration of 550 and 2500, for every angle \<open>a\<close>
  from 0 to 180 the pulse width of \<open>a\<close> converts back to an angle within one tenth of a
  degree of \<open>a\<close>, up to the rounding of the double arithmetic: the distance is at most
  one tenth plus one part in a million millions.
\<close>

theorem angle_roundtrip:
  "0 \<le> a \<and> a \<le> 180 \<longrightarrow>
     (\<exists>r. pulseToAngle (fst (MeArm_init b s w g 550 2500 io0))
             (angleToPulse (fst (MeArm_init b s w g 550 2500 io0)) a) = Inr r
          \<and> \<bar>r - a\<bar> \<le> 1 / 10 + 1 / 10 ^ 12)"
  using roundtrip_default [of a "fst (MeArm_init b s w g 550 2500 io0)"]
  by (simp add: MeArm_init_cal pwPdeg_default)

text \<open>The angle of the counterexample, 18 degrees, on the default arm.\<close>

theorem angle_roundtrip_witness:
  "(0::rat) \<le> 18 \<and> (18::rat) \<le> 180
   \<and> (\<exists>r. pulseToAngle defaultArm (angleToPulse defaultArm 18) = Inr r
          \<and> \<bar>r - 18\<bar> \<le> 1 / 10 + 1 / 10 ^ 12)"
  using angle_roundtrip [of 18 armDef_base armDef_shoulder armDef_wrist armDef_grip pigpio_off]
  by (simp add: defaultArm_def)

lemma defaultArm_pulse_100: "angleToPulse defaultArm 100 = 1633"
  by (simp add: angleToPulse_def defaultArm_eq py_int_def double_eval)

theorem goto_inverted_witness:
  "get_inv (armDef_shoulder\<lparr>inv := Some True\<rparr>)
   \<and> min_lim (armDef_shoulder\<lparr>inv := Some True\<rparr>) = 50
   \<and> max_lim (armDef_shoulder\<lparr>inv := Some True\<rparr>) = 140
   \<and> \<not> get_inv armDef_shoulder \<and> min_lim armDef_shoulder \<le> 100 \<and> 100 \<le> max_lim armDef_shoulder
   \<and> double (90 - min_lim (armDef_shoulder\<lparr>inv := Some True\<rparr>))
        = 90 - min_lim (armDef_shoulder\<lparr>inv := Some True\<rparr>)
   \<and> double (max_lim (armDef_shoulder\<lparr>inv := Some True\<rparr>)
               - (90 - min_lim (armDef_shoulder\<lparr>inv := Some True\<rparr>)))
        = max_lim (armDef_shoulder\<lparr>inv := Some True\<rparr>)
            - (90 - min_lim (armDef_shoulder\<lparr>inv := Some True\<rparr>))
   \<and> io (fst (goto defaultArm (armDef_shoulder\<lparr>inv := Some True\<rparr>) 90))
        = set_servo_pulsewidth (io defaultArm) 17 1633
   \<and> servo_pw (io (fst (goto defaultArm (armDef_shoulder\<lparr>inv := Some True\<rparr>) 90))) 17
        = servo_pw (io (fst (goto defaultArm armDef_shoulder 100))) 17"
  using goto_inverted [of "armDef_shoulder\<lparr>inv := Some True\<rparr>" 90 defaultArm
      "armDef_shoulder\<lparr>inv := Some True\<rparr>" armDef_shoulder]
  by (simp add: armDef_shoulder_def get_inv_def defaultArm_pulse_100 goto_in_range servo_angle_def
      set_servo_pulsewidth_def double_eval)

lemma goto_writes: "\<exists>ws. writes (io (fst (goto self j p))) = writes (io self) @ ws"
  by (simp add: goto_def Let_def set_servo_pulsewidth_def)

lemma setLimit_max_writes:
  "\<exists>ws. writes (io (fst (fst (setLimit_max self j maxL)))) = writes (io self) @ ws"
proof (cases maxL)
  case None
  then show ?thesis by (simp add: setLimit_max_def)
next
  case (Some mx)
  obtain s1 r where g: "goto self (j\<lparr>max_lim := mx\<rparr>) mx = (s1, r)"
    by (cases "goto self (j\<lparr>max_lim := mx\<rparr>) mx")
  with goto_writes [of self "j\<lparr>max_lim := mx\<rparr>" mx]
  have "\<exists>ws. writes (io s1) = writes (io self) @ ws" by simp
  with Some g show ?thesis
    by (auto simp: setLimit_max_def Let_def split: sum.splits)
qed

text \<open>
  Claim C10. When the servo of a joint is off, \<open>getPos\<close> gives \<open>None\<close>. Then
  \<open>setLimit\<close> with a valid new minimum calls \<open>goto\<close> with that minimum, whose
  outcome decides the rest of the call, and when the minimum is not above the joint's
  maximum the pulse width of the new minimum is written to the joint's gpio;
  \<open>setLimit\<close> with only a valid new maximum sets the maximum and writes nothing.
\<close>

theorem setLimit_unpowered:
  "(servo_pw (io self) (gpio j) = 0 \<and> 0 \<le> m
      \<and> m \<le> (case maxL of Some M \<Rightarrow> M | None \<Rightarrow> max_lim j) \<longrightarrow>
      setLimit self j (Some m) maxL =
        (case goto self (j\<lparr>min_lim := m\<rparr>) m of
           (s1, Inl e) \<Rightarrow> ((s1, j\<lparr>min_lim := m\<rparr>), Inl e)
         | (s1, Inr _) \<Rightarrow> setLimit_max s1 (j\<lparr>min_lim := m\<rparr>) maxL)
      \<and> (m \<le> max_lim j \<longrightarrow>
           (\<exists>ws. writes (io (fst (fst (setLimit self j (Some m) maxL)))) =
              writes (io self) @
                (gpio j, angleToPulse self (servo_angle (j\<lparr>min_lim := m\<rparr>) m)) # ws)))
   \<and> (servo_pw (io self) (gpio j) = 0 \<and> min_lim j \<le> M \<and> M \<le> 180 \<longrightarrow>
        setLimit self j None (Some M) = ((self, j\<lparr>max_lim := M\<rparr>), Inr ()))"
proof (intro conjI impI)
  assume a: "servo_pw (io self) (gpio j) = 0 \<and> 0 \<le> m
      \<and> m \<le> (case maxL of Some M \<Rightarrow> M | None \<Rightarrow> max_lim j)"
  then have p: "getPos self (j\<lparr>min_lim := m\<rparr>) True = Inr None"
    by (simp add: getPos_def get_servo_pulsewidth_def)
  from a p show eq: "setLimit self j (Some m) maxL =
        (case goto self (j\<lparr>min_lim := m\<rparr>) m of
           (s1, Inl e) \<Rightarrow> ((s1, j\<lparr>min_lim := m\<rparr>), Inl e)
         | (s1, Inr _) \<Rightarrow> setLimit_max s1 (j\<lparr>min_lim := m\<rparr>) maxL)"
    by (simp add: setLimit_def Let_def)
  assume b: "m \<le> max_lim j"
  define j1 where "j1 = j\<lparr>min_lim := m\<rparr>"
  define s1 where "s1 = self\<lparr>io := set_servo_pulsewidth (io self) (gpio j)
        (angleToPulse self (servo_angle j1 m))\<rparr>"
  have f: "fst (goto self j1 m) = s1"
    using b goto_in_range [of j1 m self] by (simp add: j1_def s1_def)
  have w1: "writes (io s1) = writes (io self) @ [(gpio j, angleToPulse self (servo_angle j1 m))]"
    by (simp add: s1_def set_servo_pulsewidth_def)
  obtain r where g: "goto self j1 m = (s1, r)" using f by (cases "goto self j1 m") simp
  show "\<exists>ws. writes (io (fst (fst (setLimit self j (Some m) maxL)))) =
              writes (io self) @
                (gpio j, angleToPulse self (servo_angle (j\<lparr>min_lim := m\<rparr>) m)) # ws"
  proof (cases r)
    case (Inl e)
    with eq g w1 show ?thesis by (simp add: j1_def)
  next
    case (Inr v)
    from setLimit_max_writes [of s1 j1 maxL] obtain ws where
      "writes (io (fst (fst (setLimit_max s1 j1 maxL)))) = writes (io s1) @ ws" by blast
    with Inr eq g w1 show ?thesis by (simp add: j1_def)
  qed
next
  assume "servo_pw (io self) (gpio j) = 0 \<and> min_lim j \<le> M \<and> M \<le> 180"
  then show "setLimit self j None (Some M) = ((self, j\<lparr>max_lim := M\<rparr>), Inr ())"
    by (simp add: setLimit_def setLimit_max_def getPos_def get_servo_pulsewidth_def Let_def)
qed

text \<open>
  The shoulder joint on a connection whose servos are off: a new minimum of 60 writes the
  pulse width 1200, a new maximum of 120 writes nothing.
\<close>

theorem setLimit_unpowered_witness:
  "servo_pw (io (defaultArm\<lparr>io := pigpio_off\<rparr>)) (gpio armDef_shoulder) = 0
   \<and> (0::rat) \<le> 60 \<and> 60 \<le> max_lim armDef_shoulder
   \<and> (\<exists>ws. writes (io (fst (fst (setLimit (defaultArm\<lparr>io := pigpio_off\<rparr>) armDef_shoulder (Some 60) None))))
          = (17, 1200) # ws)
   \<and> min_lim armDef_shoulder \<le> 120 \<and> (120::rat) \<le> 180
   \<and> setLimit (defaultArm\<lparr>io := pigpio_off\<rparr>) armDef_shoulder None (Some 120)
        = ((defaultArm\<lparr>io := pigpio_off\<rparr>, armDef_shoulder\<lparr>max_lim := 120\<rparr>), Inr ())"
proof -
  define arm0 where "arm0 = defaultArm\<lparr>io := pigpio_off\<rparr>"
  note t = setLimit_unpowered [of arm0 armDef_shoulder 60 None 120]
  have h1: "servo_pw (io arm0) (gpio armDef_shoulder) = 0 \<and> (0::rat) \<le> 60
      \<and> 60 \<le> (case None of Some M \<Rightarrow> M | None \<Rightarrow> max_lim armDef_shoulder)"
    by (simp add: arm0_def pigpio_off_def armDef_shoulder_def)
  have h2: "60 \<le> max_lim armDef_shoulder" by (simp add: armDef_shoulder_def)
  have h3: "servo_pw (io arm0) (gpio armDef_shoulder) = 0 \<and> min_lim armDef_shoulder \<le> 120
      \<and> (120::rat) \<le> 180"
    by (simp add: arm0_def pigpio_off_def armDef_shoulder_def)
  from t h1 h2 have "\<exists>ws. writes (io (fst (fst (setLimit arm0 armDef_shoulder (Some 60) None)))) =
      writes (io arm0) @
        (gpio armDef_shoulder,
         angleToPulse arm0 (servo_angle (armDef_shoulder\<lparr>min_lim := 60\<rparr>) 60)) # ws"
    by blast
  moreover have "angleToPulse arm0 (servo_angle (armDef_shoulder\<lparr>min_lim := 60\<rparr>) 60) = 1200"
    by (simp add: arm0_def servo_angle_def get_inv_def armDef_shoulder_def angleToPulse_def
        defaultArm_eq py_int_def double_eval)
  moreover have "writes (io arm0) = []" "gpio armDef_shoulder = 17"
    by (simp_all add: arm0_def pigpio_off_def armDef_shoulder_def)
  ultimately have c1: "\<exists>ws. writes (io (fst (fst (setLimit arm0 armDef_shoulder (Some 60) None))))
      = (17, 1200) # ws"
    by simp
  from t h3 have c2: "setLimit arm0 armDef_shoulder None (Some 120)
      = ((arm0, armDef_shoulder\<lparr>max_lim := 120\<rparr>), Inr ())"
    by blast
  from h1 h3 c1 c2 show ?thesis unfolding arm0_def by simp
qed

text \<open>
  The example of the specification for a new minimum alone: a joint with the minimum 40
  that stands at 50 is given the minimum 60 and moves there.
\<close>

lemma setLimit_min_only_example:
  "getPos (fst (goto defaultArm (armDef_shoulder\<lparr>min_lim := 40\<rparr>) 50))
      (armDef_shoulder\<lparr>min_lim := 40\<rparr>) True = Inr (Some 50)
   \<and> (\<lambda>((a, j), r). (min_lim j, servo_pw (io a) 17, r))
        (setLimit (fst (goto defaultArm (armDef_shoulder\<lparr>min_lim := 40\<rparr>) 50))
           (armDef_shoulder\<lparr>min_lim := 40\<rparr>) (Some 60) None)
       = (60, 1200, Inr ())"
  by (simp add: defaultArm_eq setLimit_def setLimit_max_def goto_def getPos_def pulseToAngle_def
      angleToPulse_def get_servo_pulsewidth_def set_servo_pulsewidth_def py_round1_def
      decimal_round1_def py_int_def get_inv_def armDef_shoulder_def double_eval)

text \<open>
  Claim C6. The claim says that \<open>setLimit\<close> with a new minimum between 0 and the
  effective maximum sets the minimum and moves a joint that is below it to the new
  minimum. The code tests the new minimum against the new maximum but moves the joint
  before it stores that maximum. On the shoulder joint of the default arm, with the limits
  50 and 140 and the joint at its home position, \<open>setLimit\<close> with the minimum 150 and
  the maximum 170 stores the minimum, and then \<open>goto\<close> rejects 150 against the old
  maximum 140: ValueError is raised, nothing is written, and the joint is left with its
  minimum above its maximum.
\<close>

theorem setLimit_min_before_max:
  "(case getPos defaultArm (shoulder defaultArm) True of Inl e \<Rightarrow> False | Inr p \<Rightarrow> py_lt p 150)
   \<and> min_lim (shoulder defaultArm) = 50 \<and> max_lim (shoulder defaultArm) = 140
   \<and> setLimit defaultArm (shoulder defaultArm) (Some 150) (Some 170)
       = ((defaultArm, (shoulder defaultArm)\<lparr>min_lim := 150\<rparr>),
          Inl (ValueError (AngleOutsideLimits 150 ''shoulder'' 150 140)))"
  by (simp add: defaultArm_eq setLimit_def goto_def getPos_def pulseToAngle_def
      get_servo_pulsewidth_def py_round1_def decimal_round1_def armDef_shoulder_def double_eval)

text \<open>
  Claim C7. The claim says that \<open>setLimit\<close> with a new minimum above the effective
  maximum, or below 0, fails with the error for an invalid limit, which is ValueError in
  this code, and changes nothing. Nothing is changed, but the exception raised is
  AttributeError: both \<^verbatim>\<open>raise\<close> statements call \<^verbatim>\<open>.format\<close> on the ValueError
  object. So it is for the minimum 160 on the shoulder joint, whose maximum is 140, and
  for the minimum -5.
\<close>

theorem setLimit_min_raises_AttributeError:
  "max_lim (shoulder defaultArm) = 140
   \<and> setLimit defaultArm (shoulder defaultArm) (Some 160) None
       = ((defaultArm, shoulder defaultArm), Inl AttributeError)
   \<and> setLimit defaultArm (shoulder defaultArm) (Some (- 5)) None
       = ((defaultArm, shoulder defaultArm), Inl AttributeError)"
  by (simp add: defaultArm_eq setLimit_def armDef_shoulder_def Let_def)

section \<open>Properties of the register protocol\<close>







section \<open>Properties of the control stick\<close>

lemma tool_unheld:
  "controlStickTool False now (None, req) = ((None, req\<lparr>inControl := False\<rparr>), Inr ())"
  by (simp add: controlStickTool_def checkControlExpiration_def Let_def)

lemma tool_lapsed:
  "tmout c < now \<Longrightarrow>
     controlStickTool False now (Some c, req) = ((None, req\<lparr>inControl := False\<rparr>), Inr ())"
  by (simp add: controlStickTool_def checkControlExpiration_def Let_def)

lemma tool_other:
  "now \<le> tmout c \<Longrightarrow> Some (sid c) \<noteq> session_id req \<Longrightarrow>
     controlStickTool False now (Some c, req) = ((Some c, req\<lparr>inControl := False\<rparr>), Inr ())"
  by (simp add: controlStickTool_def checkControlExpiration_def Let_def)

text \<open>
  Claim C4. Taking the stick with a display name when nobody holds it is granted, and the
  stick then expires at \<open>now + 60\<close>, the sum being that of Python, and belongs to the
  caller's session. Taking it
  when the time out of the holder is past behaves as when nobody holds it. Taking it while
  another session holds it and its time out is not past is refused with the error 402,
  which carries the holder's name and address and the time remaining, and the stick is
  unchanged. The control stick tool, run for the holder after the time out, clears the
  stick and leaves \<open>inControl\<close> false. In the scenario of the specification: A is
  granted at 0; B at 10 is refused with 50 remaining; the tool for A at 70 gives false;
  B at 70 is granted.
\<close>

theorem control_stick_lease:
  "snd (takeStick (Some n) now fresh (None, req)) = Inr ()
   \<and> map_option tmout (fst (fst (takeStick (Some n) now fresh (None, req))))
       = Some (fadd now CONTROL_STICK_TIMEOUT)
   \<and> map_option sid (fst (fst (takeStick (Some n) now fresh (None, req))))
       = session_id (snd (fst (takeStick (Some n) now fresh (None, req))))
   \<and> (tmout c < now \<longrightarrow>
        takeStick (Some n) now fresh (Some c, req) = takeStick (Some n) now fresh (None, req))
   \<and> (now \<le> tmout c \<and> Some (sid c) \<noteq> session_id req \<longrightarrow>
        takeStick (Some n) now fresh (Some c, req) =
          ((Some c, req\<lparr>inControl := False\<rparr>),
           Inl (HTTPError 402 (AskOrWait (stick_name c) (stick_ip c) (fsub (tmout c) now)))))
   \<and> (tmout c < now \<and> session_id req = Some (sid c) \<longrightarrow>
        controlStickTool False now (Some c, req) = ((None, req\<lparr>inControl := False\<rparr>), Inr ()))
   \<and> CONTROL_STICK_TIMEOUT = 60
   \<and> takeStick (Some ''A'') 0 ''uuid-A'' (None, callerA)
        = ((Some stickA, callerA\<lparr>session_id := Some ''uuid-A''\<rparr>), Inr ())
   \<and> takeStick (Some ''B'') 10 ''uuid-B'' (Some stickA, callerB)
        = ((Some stickA, callerB), Inl (HTTPError 402 (AskOrWait ''A'' ''10.0.0.1'' 50)))
   \<and> controlStickTool False 70 (Some stickA, callerA\<lparr>session_id := Some ''uuid-A''\<rparr>)
        = ((None, callerA\<lparr>session_id := Some ''uuid-A''\<rparr>), Inr ())
   \<and> takeStick (Some ''B'') 70 ''uuid-B'' (None, callerB)
        = ((Some \<lparr>sid = ''uuid-B'', tmout = 130, stick_name = ''B'', stick_ip = ''10.0.0.2''\<rparr>,
            callerB\<lparr>session_id := Some ''uuid-B''\<rparr>), Inr ())"
proof (intro conjI impI)
  show "snd (takeStick (Some n) now fresh (None, req)) = Inr ()"
    by (simp add: takeStick_def tool_unheld ControlStick_GET_def Let_def split: option.splits)
  show "map_option tmout (fst (fst (takeStick (Some n) now fresh (None, req))))
       = Some (fadd now CONTROL_STICK_TIMEOUT)"
    by (simp add: takeStick_def tool_unheld ControlStick_GET_def Let_def split: option.splits)
  show "map_option sid (fst (fst (takeStick (Some n) now fresh (None, req))))
       = session_id (snd (fst (takeStick (Some n) now fresh (None, req))))"
    by (simp add: takeStick_def tool_unheld ControlStick_GET_def Let_def split: option.splits)
  show "CONTROL_STICK_TIMEOUT = 60" by (simp add: CONTROL_STICK_TIMEOUT_def)
  show "takeStick (Some ''A'') 0 ''uuid-A'' (None, callerA)
        = ((Some stickA, callerA\<lparr>session_id := Some ''uuid-A''\<rparr>), Inr ())"
    by (simp add: takeStick_def tool_unheld ControlStick_GET_def Let_def callerA_def stickA_def
        strip_def isspace_def CONTROL_STICK_TIMEOUT_def double_eval)
  show "takeStick (Some ''B'') 10 ''uuid-B'' (Some stickA, callerB)
        = ((Some stickA, callerB), Inl (HTTPError 402 (AskOrWait ''A'' ''10.0.0.1'' 50)))"
    by (simp add: takeStick_def controlStickTool_def checkControlExpiration_def
        ControlStick_GET_def Let_def callerB_def stickA_def strip_def isspace_def double_eval)
  show "controlStickTool False 70 (Some stickA, callerA\<lparr>session_id := Some ''uuid-A''\<rparr>)
        = ((None, callerA\<lparr>session_id := Some ''uuid-A''\<rparr>), Inr ())"
    by (simp add: controlStickTool_def checkControlExpiration_def Let_def callerA_def stickA_def)
  show "takeStick (Some ''B'') 70 ''uuid-B'' (None, callerB)
        = ((Some \<lparr>sid = ''uuid-B'', tmout = 130, stick_name = ''B'', stick_ip = ''10.0.0.2''\<rparr>,
            callerB\<lparr>session_id := Some ''uuid-B''\<rparr>), Inr ())"
    by (simp add: takeStick_def tool_unheld ControlStick_GET_def Let_def callerB_def
        strip_def isspace_def CONTROL_STICK_TIMEOUT_def double_eval)
next
  assume "tmout c < now"
  then show "takeStick (Some n) now fresh (Some c, req) = takeStick (Some n) now fresh (None, req)"
    by (simp add: takeStick_def tool_unheld tool_lapsed)
next
  assume "now \<le> tmout c \<and> Some (sid c) \<noteq> session_id req"
  then show "takeStick (Some n) now fresh (Some c, req) =
          ((Some c, req\<lparr>inControl := False\<rparr>),
           Inl (HTTPError 402 (AskOrWait (stick_name c) (stick_ip c) (fsub (tmout c) now))))"
    by (simp add: takeStick_def tool_other ControlStick_GET_def Let_def)
next
  assume "tmout c < now \<and> session_id req = Some (sid c)"
  then show "controlStickTool False now (Some c, req) = ((None, req\<lparr>inControl := False\<rparr>), Inr ())"
    by (simp add: tool_lapsed)
qed

text \<open>The stick of A, which expires at 60, seen by B at 70 and at 10, and by A at 70.\<close>

theorem control_stick_lease_witness:
  "tmout stickA < 70
   \<and> takeStick (Some ''B'') 70 ''uuid-B'' (Some stickA, callerB)
       = takeStick (Some ''B'') 70 ''uuid-B'' (None, callerB)
   \<and> (10 \<le> tmout stickA \<and> Some (sid stickA) \<noteq> session_id callerB)
   \<and> takeStick (Some ''B'') 10 ''uuid-B'' (Some stickA, callerB) =
          ((Some stickA, callerB\<lparr>inControl := False\<rparr>),
           Inl (HTTPError 402 (AskOrWait (stick_name stickA) (stick_ip stickA) (fsub (tmout stickA) 10))))
   \<and> session_id (callerA\<lparr>session_id := Some ''uuid-A''\<rparr>) = Some (sid stickA)
   \<and> controlStickTool False 70 (Some stickA, callerA\<lparr>session_id := Some ''uuid-A''\<rparr>)
       = ((None, callerA\<lparr>session_id := Some ''uuid-A'', inControl := False\<rparr>), Inr ())"
proof -
  have h1: "tmout stickA < 70" by (simp add: stickA_def)
  have h2: "10 \<le> tmout stickA \<and> Some (sid stickA) \<noteq> session_id callerB"
    by (simp add: stickA_def callerB_def)
  have h3: "tmout stickA < 70 \<and> session_id (callerA\<lparr>session_id := Some ''uuid-A''\<rparr>) = Some (sid stickA)"
    by (simp add: stickA_def)
  from control_stick_lease [of "''B''" 70 "''uuid-B''" callerB stickA] h1
  have c1: "takeStick (Some ''B'') 70 ''uuid-B'' (Some stickA, callerB)
       = takeStick (Some ''B'') 70 ''uuid-B'' (None, callerB)" by blast
  from control_stick_lease [of "''B''" 10 "''uuid-B''" callerB stickA] h2
  have c2: "takeStick (Some ''B'') 10 ''uuid-B'' (Some stickA, callerB) =
          ((Some stickA, callerB\<lparr>inControl := False\<rparr>),
           Inl (HTTPError 402 (AskOrWait (stick_name stickA) (stick_ip stickA) (fsub (tmout stickA) 10))))"
    by blast
  from control_stick_lease [of "''A''" 70 "''uuid-A''" "callerA\<lparr>session_id := Some ''uuid-A''\<rparr>" stickA] h3
  have c3: "controlStickTool False 70 (Some stickA, callerA\<lparr>session_id := Some ''uuid-A''\<rparr>)
       = ((None, callerA\<lparr>session_id := Some ''uuid-A'', inControl := False\<rparr>), Inr ())"
    by blast
  from h1 h2 h3 c1 c2 c3 show ?thesis by blast
qed

text \<open>
  Claim C8. The claim says that taking the free stick without a display name is granted
  under a default name. The handler calls \<^verbatim>\<open>name.strip()\<close> on its default
  \<open>None\<close>, so the request raises AttributeError and the stick stays free. The default
  name is reached only for a name that is given and blank.
\<close>

theorem takeStick_without_name:
  "takeStick None now fresh (None, req) = ((None, req\<lparr>inControl := False\<rparr>), Inl AttributeError)
   \<and> takeStick (Some ''  '') 0 ''uuid-A'' (None, callerA)
       = ((Some (stickA\<lparr>stick_name := ''Anonymous''\<rparr>), callerA\<lparr>session_id := Some ''uuid-A''\<rparr>),
          Inr ())"
  by (simp add: takeStick_def tool_unheld ControlStick_GET_def Let_def callerA_def stickA_def
      strip_def isspace_def CONTROL_STICK_TIMEOUT_def double_eval)

end
